theory Spec2Isabelle
  imports Complex_Main
begin

section \<open>Floating-point values\<close>

text \<open>
  The backtester computes on pandas Series of dtype float64. A value is a finite number,
  one of the two infinities, or NaN (which pandas also uses for "missing"). Finite
  numbers are taken as exact reals: rounding, overflow and the sign of zero are left
  out of this model (a zero divisor counts as positive zero). The one place where the
  code branches on a rounded result, the test of the standard deviation against 0, is
  not decided by exact arithmetic: see \<open>series_var\<close> below.
\<close>

datatype float64 = Fin real | PInf | NInf | NaN

fun fneg :: "float64 \<Rightarrow> float64" where
  "fneg (Fin x) = Fin (- x)"
| "fneg PInf = NInf"
| "fneg NInf = PInf"
| "fneg NaN = NaN"

fun fadd :: "float64 \<Rightarrow> float64 \<Rightarrow> float64" where
  "fadd NaN b = NaN"
| "fadd a NaN = NaN"
| "fadd (Fin x) (Fin y) = Fin (x + y)"
| "fadd PInf NInf = NaN"
| "fadd NInf PInf = NaN"
| "fadd PInf b = PInf"
| "fadd a PInf = PInf"
| "fadd NInf b = NInf"
| "fadd a NInf = NInf"

definition fsub :: "float64 \<Rightarrow> float64 \<Rightarrow> float64" where
  "fsub a b = fadd a (fneg b)"

text \<open>The sign of a value: 1, 0 or -1 (0 for NaN, which the callers treat first).\<close>

fun fsgn :: "float64 \<Rightarrow> real" where
  "fsgn (Fin x) = sgn x"
| "fsgn PInf = 1"
| "fsgn NInf = - 1"
| "fsgn NaN = 0"

fun fmul :: "float64 \<Rightarrow> float64 \<Rightarrow> float64" where
  "fmul NaN b = NaN"
| "fmul a NaN = NaN"
| "fmul (Fin x) (Fin y) = Fin (x * y)"
| "fmul a b =
     (if fsgn a * fsgn b = 0 then NaN else if 0 < fsgn a * fsgn b then PInf else NInf)"

fun fdiv :: "float64 \<Rightarrow> float64 \<Rightarrow> float64" where
  "fdiv NaN b = NaN"
| "fdiv a NaN = NaN"
| "fdiv (Fin x) (Fin y) =
     (if y = 0 then (if x = 0 then NaN else if 0 < x then PInf else NInf)
      else Fin (x / y))"
| "fdiv (Fin x) b = Fin 0"
| "fdiv a (Fin y) = (if 0 \<le> y then a else fneg a)"
| "fdiv a b = NaN"

fun fsqrt :: "float64 \<Rightarrow> float64" where
  "fsqrt (Fin x) = (if x < 0 then NaN else Fin (sqrt x))"
| "fsqrt PInf = PInf"
| "fsqrt NInf = NaN"
| "fsqrt NaN = NaN"

text \<open>Comparisons: every comparison with NaN is false.\<close>

fun flt :: "float64 \<Rightarrow> float64 \<Rightarrow> bool" where
  "flt NaN b = False"
| "flt a NaN = False"
| "flt (Fin x) (Fin y) = (x < y)"
| "flt PInf b = False"
| "flt a PInf = True"
| "flt NInf b = (b \<noteq> NInf)"
| "flt a NInf = False"

definition feq :: "float64 \<Rightarrow> float64 \<Rightarrow> bool" where
  "feq a b = (a \<noteq> NaN \<and> b \<noteq> NaN \<and> a = b)"

text \<open>\<^verbatim>\<open>np.maximum\<close> and \<^verbatim>\<open>np.minimum\<close>: NaN propagates.\<close>

definition fmax :: "float64 \<Rightarrow> float64 \<Rightarrow> float64" where
  "fmax a b = (if a = NaN \<or> b = NaN then NaN else if flt a b then b else a)"

definition fmin :: "float64 \<Rightarrow> float64 \<Rightarrow> float64" where
  "fmin a b = (if a = NaN \<or> b = NaN then NaN else if flt b a then b else a)"

section \<open>The pandas operations the backtester calls\<close>

text \<open>
  A Series is the list of its values; every Series of one run carries the index of the
  price Series, so the elementwise operations pair the values by position.
\<close>

type_synonym series = "float64 list"

text \<open>\<^verbatim>\<open>s.shift(1)\<close>: every value moves one place down, the first place is missing.\<close>

definition shift1 :: "series \<Rightarrow> series" where
  "shift1 xs = (if xs = [] then [] else NaN # butlast xs)"

text \<open>\<^verbatim>\<open>s.fillna(v)\<close>: every missing value, whatever its origin, becomes \<open>v\<close>.\<close>

definition fillna :: "float64 \<Rightarrow> series \<Rightarrow> series" where
  "fillna v xs = map (\<lambda>x. if x = NaN then v else x) xs"

text \<open>
  \<^verbatim>\<open>s.pct_change()\<close> computes \<^verbatim>\<open>s / s.shift(1) - 1\<close>. (Older pandas versions first
  fill missing prices forward; the two agree on every Series without NaN.)
\<close>

definition pct_change :: "series \<Rightarrow> series" where
  "pct_change xs = map2 (\<lambda>p q. fsub (fdiv p q) (Fin 1)) xs (shift1 xs)"

text \<open>
  \<^verbatim>\<open>np.multiply.accumulate\<close> / \<^verbatim>\<open>np.maximum.accumulate\<close>: the running fold of a binary
  operation, the first value standing for itself.
\<close>

fun accum_from :: "(float64 \<Rightarrow> float64 \<Rightarrow> float64) \<Rightarrow> float64 \<Rightarrow> series \<Rightarrow> series" where
  "accum_from f a [] = [a]"
| "accum_from f a (x # xs) = a # accum_from f (f a x) xs"

fun accumulate :: "(float64 \<Rightarrow> float64 \<Rightarrow> float64) \<Rightarrow> series \<Rightarrow> series" where
  "accumulate f [] = []"
| "accumulate f (x # xs) = accum_from f x xs"

text \<open>
  pandas' cumulative functions skip NaN: the missing places are filled with the
  operation's neutral value, the fold runs, and the missing places are NaN again
  in the result.
\<close>

definition na_accum :: "(float64 \<Rightarrow> float64 \<Rightarrow> float64) \<Rightarrow> float64 \<Rightarrow> series \<Rightarrow> series" where
  "na_accum f neutral xs =
     map2 (\<lambda>x r. if x = NaN then NaN else r) xs (accumulate f (fillna neutral xs))"

definition cumprod :: "series \<Rightarrow> series" where
  "cumprod xs = na_accum fmul (Fin 1) xs"

definition cummax :: "series \<Rightarrow> series" where
  "cummax xs = na_accum fmax NInf xs"

text \<open>The reductions skip NaN as well (\<^verbatim>\<open>skipna=True\<close>).\<close>

definition dropna :: "series \<Rightarrow> series" where
  "dropna xs = filter (\<lambda>x. x \<noteq> NaN) xs"

definition fsum :: "series \<Rightarrow> float64" where
  "fsum xs = foldl fadd (Fin 0) xs"

definition series_min :: "series \<Rightarrow> float64" where
  "series_min xs = (case dropna xs of [] \<Rightarrow> NaN | v # vs \<Rightarrow> foldl fmin v vs)"

definition series_mean :: "series \<Rightarrow> float64" where
  "series_mean xs =
     (let vs = dropna xs
      in if vs = [] then NaN else fdiv (fsum vs) (Fin (real (length vs))))"

text \<open>
  \<^verbatim>\<open>s.std()\<close> is the sample standard deviation (\<^verbatim>\<open>ddof=1\<close>) of the values present:
  the square root of their variance. With fewer than two values present the variance is
  NaN. With two or more, pandas computes it in float64 arithmetic, and whether the result
  is exactly 0 depends on the rounding of that computation: for equal non-zero values the
  rounded mean can differ from the values, and the computed variance is then tiny but not
  0. The code compares the result with 0, so exact arithmetic would decide that comparison
  differently from the code. The float64 variance of two or more values is therefore a
  parameter \<open>nanvar\<close> of the model, a function from the values present to their
  variance, and every statement below holds for each such function.
\<close>

type_synonym variance = "series \<Rightarrow> float64"

definition series_var :: "variance \<Rightarrow> series \<Rightarrow> float64" where
  "series_var nanvar xs =
     (let vs = dropna xs
      in if length vs \<le> 1 then NaN else nanvar vs)"

definition series_std :: "variance \<Rightarrow> series \<Rightarrow> float64" where
  "series_std nanvar xs = fsqrt (series_var nanvar xs)"

text \<open>
  One such function, used where a concrete run needs one: pandas' steps (the mean, the
  squared deviations from it, their sum over \<open>n - 1\<close>) with no step rounded. It is the
  float64 result wherever that computation does not round, as on zeros, and not in
  general.
\<close>

definition exact_var :: variance where
  "exact_var vs =
     (let n = length vs;
          avg = fdiv (fsum vs) (Fin (real n));
          sqr = map (\<lambda>v. fmul (fsub avg v) (fsub avg v)) vs
      in fdiv (fsum sqr) (Fin (real (n - 1))))"

section \<open>The Backtester\<close>

text \<open>
  The exceptions a run can end with. \<open>IndexError\<close> is raised by \<^verbatim>\<open>iloc[-1]\<close> on an
  empty Series, \<open>ValueError\<close> by the Series constructor when the data and the index
  differ in length. \<open>InvalidInputError\<close> is the error of the specification; no statement
  of the source raises it.
\<close>

datatype error = IndexError | ValueError | InvalidInputError

text \<open>
  The instance: \<^verbatim>\<open>__init__\<close> stores the prices as a float Series and the strategy
  function. The strategy is a function from the price Series to the list-like of its
  signals (both example strategies return an array).
\<close>

record backtester =
  prices :: series
  strategy_func :: "series \<Rightarrow> series"

definition Backtester :: "series \<Rightarrow> (series \<Rightarrow> series) \<Rightarrow> backtester" where
  "Backtester ps f = \<lparr>prices = ps, strategy_func = f\<rparr>"

text \<open>The summary dictionary of \<^verbatim>\<open>run\<close>, one field per key.\<close>

record summary =
  total_return :: float64
  sharpe :: float64
  max_drawdown :: float64

text \<open>
  \<^verbatim>\<open>pd.Series(data, index=idx)\<close> on a list-like: the lengths must agree.
\<close>

definition Series_on_index :: "series \<Rightarrow> nat \<Rightarrow> error + series" where
  "Series_on_index vals n = (if length vals \<noteq> n then Inl ValueError else Inr vals)"

text \<open>\<^verbatim>\<open>s.iloc[-1]\<close>\<close>

definition iloc_last :: "series \<Rightarrow> error + float64" where
  "iloc_last xs = (if xs = [] then Inl IndexError else Inr (last xs))"

text \<open>
  Every method takes the instance and returns its value together with the instance as
  the method leaves it (no method of the source assigns to an attribute).
\<close>

definition compute_returns :: "backtester \<Rightarrow> series \<times> backtester" where
  "compute_returns self = (fillna (Fin 0) (pct_change (prices self)), self)"

text \<open>
  \<^verbatim>\<open>_sharpe(self, rets, risk_free=0.0)\<close>: the last argument is optional, \<open>None\<close>
  stands for a call that leaves it out. This method and \<^verbatim>\<open>_max_drawdown\<close> never read
  or write \<^verbatim>\<open>self\<close>, so they are functions of their other arguments.
\<close>

definition excess_returns :: "series \<Rightarrow> float64 \<Rightarrow> series" where
  "excess_returns rets risk_free = map (\<lambda>r. fsub r (fdiv risk_free (Fin 252))) rets"

definition sharpe_of :: "variance \<Rightarrow> series \<Rightarrow> float64 option \<Rightarrow> float64" where
  "sharpe_of nanvar rets rf =
     (let risk_free = (case rf of None \<Rightarrow> Fin 0 | Some r \<Rightarrow> r);
          excess = excess_returns rets risk_free
      in if feq (series_std nanvar excess) (Fin 0) then Fin 0
         else fdiv (fmul (fsqrt (Fin 252)) (series_mean excess)) (series_std nanvar excess))"

text \<open>\<^verbatim>\<open>_max_drawdown(self, equity)\<close>\<close>

definition max_drawdown_of :: "series \<Rightarrow> float64" where
  "max_drawdown_of equity =
     (let roll_max = cummax equity;
          dd = map2 (\<lambda>e m. fsub (fdiv e m) (Fin 1)) equity roll_max
      in series_min dd)"

text \<open>The local variables of \<^verbatim>\<open>run\<close>, in the order the source computes them.\<close>

definition shifted_signals :: "series \<Rightarrow> series" where
  "shifted_signals signals = fillna (Fin 0) (shift1 signals)"

definition strat_rets :: "series \<Rightarrow> series \<Rightarrow> series" where
  "strat_rets signals rets = map2 fmul (shifted_signals signals) rets"

definition equity_curve :: "series \<Rightarrow> series" where
  "equity_curve srets = cumprod (map (fadd (Fin 1)) srets)"

definition run ::
  "variance \<Rightarrow> backtester \<Rightarrow> (error + series \<times> series \<times> summary) \<times> backtester" where
  "run nanvar self =
     (let (rets, self1) = compute_returns self
      in case Series_on_index (strategy_func self1 (prices self1)) (length (prices self1)) of
           Inl e \<Rightarrow> (Inl e, self1)
         | Inr signals \<Rightarrow>
             (let srets = strat_rets signals rets;
                  equity = equity_curve srets
              in case iloc_last equity of
                   Inl e \<Rightarrow> (Inl e, self1)
                 | Inr final \<Rightarrow>
                     (Inr (srets, equity,
                           \<lparr>total_return = fsub final (Fin 1),
                            sharpe = sharpe_of nanvar srets None,
                            max_drawdown = max_drawdown_of equity\<rparr>),
                      self1)))"

section \<open>The specification's series, over exact numbers\<close>

text \<open>
  The series as the specification defines them, for a price list \<open>ps\<close> and a signal
  list \<open>sg\<close> of finite numbers, by index. They are what the theorems below compare the
  code with.
\<close>

definition spec_return :: "real list \<Rightarrow> nat \<Rightarrow> real" where
  "spec_return ps i = (if i = 0 then 0 else (ps ! i - ps ! (i - 1)) / ps ! (i - 1))"

definition spec_shifted :: "real list \<Rightarrow> nat \<Rightarrow> real" where
  "spec_shifted sg i = (if i = 0 then 0 else sg ! (i - 1))"

definition spec_strategy_return :: "real list \<Rightarrow> real list \<Rightarrow> nat \<Rightarrow> real" where
  "spec_strategy_return ps sg i = spec_shifted sg i * spec_return ps i"

definition spec_equity :: "real list \<Rightarrow> real list \<Rightarrow> nat \<Rightarrow> real" where
  "spec_equity ps sg i = (\<Prod>j\<le>i. 1 + spec_strategy_return ps sg j)"

definition spec_drawdown :: "real list \<Rightarrow> nat \<Rightarrow> real" where
  "spec_drawdown es i = es ! i / Max (set (take (Suc i) es)) - 1"

definition spec_max_drawdown :: "real list \<Rightarrow> real" where
  "spec_max_drawdown es = Min (set (map (spec_drawdown es) [0..<length es]))"

section \<open>Strategies used as concrete inputs\<close>

text \<open>The strategy that is always flat, the one that is always long, and two that
  break the contract: one returns a signal too many, one returns signals of size 2.\<close>

definition flat_strategy :: "series \<Rightarrow> series" where
  "flat_strategy ps = replicate (length ps) (Fin 0)"

definition long_strategy :: "series \<Rightarrow> series" where
  "long_strategy ps = replicate (length ps) (Fin 1)"

definition overlong_strategy :: "series \<Rightarrow> series" where
  "overlong_strategy ps = replicate (Suc (length ps)) (Fin 0)"

definition double_strategy :: "series \<Rightarrow> series" where
  "double_strategy ps = replicate (length ps) (Fin 2)"

section \<open>Basic facts\<close>

subsection \<open>Lengths, indexing and folds over finite values\<close>

lemma length_shift1: "length (shift1 xs) = length xs"
  by (simp add: shift1_def)

lemma length_fillna: "length (fillna v xs) = length xs"
  by (simp add: fillna_def)

lemma length_pct_change: "length (pct_change xs) = length xs"
  by (simp add: pct_change_def length_shift1)

lemma length_accum_from: "length (accum_from f a xs) = Suc (length xs)"
  by (induction xs arbitrary: a) auto

lemma length_accumulate: "length (accumulate f xs) = length xs"
  by (cases xs) (auto simp: length_accum_from)

lemma length_na_accum: "length (na_accum f v xs) = length xs"
  by (simp add: na_accum_def length_accumulate length_fillna)

lemma nth_shift1: "i < length xs \<Longrightarrow> shift1 xs ! i = (if i = 0 then NaN else xs ! (i - 1))"
  by (cases i) (auto simp: shift1_def nth_butlast)

lemma fillna_Fin: "fillna v (map Fin xs) = map Fin xs"
  by (simp add: fillna_def)

lemma nth_accum_from:
  "i \<le> length xs \<Longrightarrow> accum_from f a xs ! i = foldl f a (take i xs)"
proof (induction xs arbitrary: a i)
  case Nil then show ?case by simp
next
  case (Cons x xs) then show ?case by (cases i) auto
qed

lemma nth_accumulate:
  "i < length xs \<Longrightarrow> accumulate f xs ! i = foldl f (hd xs) (take i (tl xs))"
  by (cases xs) (auto simp: nth_accum_from)

lemma foldl_fmul_Fin: "foldl fmul (Fin a) (map Fin xs) = Fin (a * prod_list xs)"
  by (induction xs arbitrary: a) (auto simp: mult.assoc)

lemma foldl_fmax_Fin': "foldl fmax (Fin a) (map Fin xs) = Fin (foldl max a xs)"
  by (induction xs arbitrary: a) (auto simp: fmax_def max_def)

lemma foldl_max_Max: "foldl max (a::real) xs = Max (set (a # xs))"
  unfolding Max.set_eq_fold foldl_conv_fold by (simp add: max.commute)

lemma foldl_fmax_Fin: "foldl fmax (Fin a) (map Fin xs) = Fin (Max (set (a # xs)))"
  using foldl_fmax_Fin' foldl_max_Max by simp

lemma foldl_fmin_Fin': "foldl fmin (Fin a) (map Fin xs) = Fin (foldl min a xs)"
  by (induction xs arbitrary: a) (auto simp: fmin_def min_def)

lemma foldl_min_Min: "foldl min (a::real) xs = Min (set (a # xs))"
  unfolding Min.set_eq_fold foldl_conv_fold by (simp add: min.commute)

lemma dropna_Fin: "dropna (map Fin xs) = map Fin xs"
  by (induction xs) (auto simp: dropna_def)

lemma series_min_Fin:
  assumes "xs \<noteq> []"
  shows "series_min (map Fin xs) = Fin (Min (set xs))"
proof (cases xs)
  case Nil then show ?thesis using assms by simp
next
  case (Cons a ys)
  have "dropna (map Fin xs) = Fin a # map Fin ys" using Cons dropna_Fin[of "a # ys"] by simp
  then show ?thesis using Cons by (simp add: series_min_def foldl_fmin_Fin' foldl_min_Min del: set_simps)
qed

subsection \<open>Returns, lagged signals and the result of a run\<close>

lemma fst_compute_returns:
  "fst (compute_returns self) = fillna (Fin 0) (pct_change (prices self))"
  by (simp add: compute_returns_def)

lemma length_compute_returns: "length (fst (compute_returns self)) = length (prices self)"
  by (simp add: fst_compute_returns length_fillna length_pct_change)

lemma nth_pct_change:
  "i < length xs \<Longrightarrow> pct_change xs ! i = fsub (fdiv (xs ! i) (shift1 xs ! i)) (Fin 1)"
  by (simp add: pct_change_def length_shift1)

lemma nth_fillna: "i < length xs \<Longrightarrow> fillna v xs ! i = (if xs ! i = NaN then v else xs ! i)"
  by (simp add: fillna_def)

lemma fdiv_NaN_right: "fdiv a NaN = NaN"
  by (cases a) auto

lemma compute_returns_first:
  "prices self \<noteq> [] \<Longrightarrow> fst (compute_returns self) ! 0 = Fin 0"
  by (simp add: fst_compute_returns nth_fillna length_pct_change nth_pct_change nth_shift1
      fdiv_NaN_right fsub_def)

lemma nth_compute_returns_Fin:
  assumes "i < length ps" "0 \<notin> set ps"
  shows "fst (compute_returns (Backtester (map Fin ps) f)) ! i = Fin (spec_return ps i)"
proof (cases i)
  case 0
  then show ?thesis using assms compute_returns_first[of "Backtester (map Fin ps) f"]
    by (simp add: Backtester_def spec_return_def)
next
  case (Suc k)
  have q: "ps ! k \<noteq> 0" using assms Suc by (metis Suc_lessD nth_mem)
  have "ps ! i / ps ! k - 1 = (ps ! i - ps ! k) / ps ! k" using q by (simp add: field_simps)
  then show ?thesis using assms Suc q
    by (simp add: fst_compute_returns Backtester_def nth_fillna length_pct_change nth_pct_change
        nth_shift1 fsub_def spec_return_def)
qed

lemma compute_returns_Fin:
  assumes "0 \<notin> set ps"
  shows "fst (compute_returns (Backtester (map Fin ps) f)) = map Fin (map (spec_return ps) [0..<length ps])"
  by (rule nth_equalityI)
     (simp_all add: length_compute_returns Backtester_def nth_compute_returns_Fin[unfolded Backtester_def] assms)

lemma length_shifted_signals: "length (shifted_signals sg) = length sg"
  by (simp add: shifted_signals_def length_fillna length_shift1)

lemma shifted_signals_first: "sg \<noteq> [] \<Longrightarrow> shifted_signals sg ! 0 = Fin 0"
  by (simp add: shifted_signals_def nth_fillna length_shift1 nth_shift1)

lemma nth_shifted_signals:
  "i < length sg \<Longrightarrow> 0 < i \<Longrightarrow> sg ! (i - 1) \<noteq> NaN \<Longrightarrow> shifted_signals sg ! i = sg ! (i - 1)"
  by (simp add: shifted_signals_def nth_fillna length_shift1 nth_shift1)

lemma nth_shifted_signals_NaN:
  "i < length sg \<Longrightarrow> 0 < i \<Longrightarrow> sg ! (i - 1) = NaN \<Longrightarrow> shifted_signals sg ! i = Fin 0"
  by (simp add: shifted_signals_def nth_fillna length_shift1 nth_shift1)

lemma length_strat_rets:
  "length (strat_rets sg rets) = min (length sg) (length rets)"
  by (simp add: strat_rets_def length_shifted_signals)

lemma nth_strat_rets:
  "i < length sg \<Longrightarrow> i < length rets \<Longrightarrow>
   strat_rets sg rets ! i = fmul (shifted_signals sg ! i) (rets ! i)"
  by (simp add: strat_rets_def length_shifted_signals)

lemma length_equity_curve: "length (equity_curve sr) = length sr"
  by (simp add: equity_curve_def cumprod_def length_na_accum)

lemma snd_compute_returns: "snd (compute_returns self) = self"
  by (simp add: compute_returns_def)

lemma snd_run: "snd (run nanvar self) = self"
  by (simp add: run_def compute_returns_def Let_def split: sum.splits)

lemma run_length_mismatch:
  "length (strategy_func self (prices self)) \<noteq> length (prices self) \<Longrightarrow>
   fst (run nanvar self) = Inl ValueError"
  by (simp add: run_def compute_returns_def Series_on_index_def)

lemma run_no_prices:
  "prices self = [] \<Longrightarrow> strategy_func self [] = [] \<Longrightarrow> fst (run nanvar self) = Inl IndexError"
  by (simp add: run_def compute_returns_def Series_on_index_def Let_def strat_rets_def
      equity_curve_def cumprod_def na_accum_def iloc_last_def shifted_signals_def shift1_def
      pct_change_def fillna_def)

lemma run_returns:
  assumes "prices self \<noteq> []"
    and "length (strategy_func self (prices self)) = length (prices self)"
  shows "fst (run nanvar self) =
     Inr (strat_rets (strategy_func self (prices self)) (fst (compute_returns self)),
          equity_curve (strat_rets (strategy_func self (prices self)) (fst (compute_returns self))),
          \<lparr>total_return =
             fsub (last (equity_curve
               (strat_rets (strategy_func self (prices self)) (fst (compute_returns self))))) (Fin 1),
           sharpe = sharpe_of nanvar
             (strat_rets (strategy_func self (prices self)) (fst (compute_returns self))) None,
           max_drawdown = max_drawdown_of (equity_curve
             (strat_rets (strategy_func self (prices self)) (fst (compute_returns self))))\<rparr>)"
proof -
  let ?sr = "strat_rets (strategy_func self (prices self)) (fst (compute_returns self))"
  have "length (equity_curve ?sr) = length (prices self)"
    using assms by (simp add: length_equity_curve length_strat_rets length_compute_returns)
  then have "equity_curve ?sr \<noteq> []" using assms(1) by auto
  then show ?thesis using assms(2)
    by (simp add: run_def Series_on_index_def iloc_last_def Let_def fst_compute_returns
        compute_returns_def)
qed

lemma run_result_cases:
  assumes "fst (run nanvar self) = Inr (sr, eq, sm)"
  shows "prices self \<noteq> [] \<and> length (strategy_func self (prices self)) = length (prices self)"
proof -
  have "length (strategy_func self (prices self)) = length (prices self)"
    using assms run_length_mismatch[of self nanvar] by auto
  moreover have "prices self \<noteq> []"
  proof
    assume e: "prices self = []"
    then have "strategy_func self [] = []" using calculation by simp
    then show False using run_no_prices[OF e] assms by simp
  qed
  ultimately show ?thesis by simp
qed

lemma strat_rets_first:
  assumes "prices self \<noteq> []" "length sg = length (prices self)"
  shows "strat_rets sg (fst (compute_returns self)) ! 0 = Fin 0"
proof -
  have "sg \<noteq> []" using assms by auto
  then show ?thesis using assms
    by (simp add: nth_strat_rets length_compute_returns shifted_signals_first compute_returns_first)
qed

lemma nth_na_accum:
  "i < length xs \<Longrightarrow>
   na_accum f v xs ! i = (if xs ! i = NaN then NaN else accumulate f (fillna v xs) ! i)"
  by (simp add: na_accum_def length_accumulate length_fillna)

lemma nth_cumprod_Fin:
  assumes "i < length xs"
  shows "cumprod (map Fin xs) ! i = Fin (prod_list (take (Suc i) xs))"
proof (cases xs)
  case Nil then show ?thesis using assms by simp
next
  case (Cons a ys)
  have "accumulate fmul (map Fin xs) ! i = foldl fmul (Fin a) (map Fin (take i ys))"
    using assms Cons nth_accumulate[of i "map Fin xs" fmul] by (simp add: take_map)
  moreover have "cumprod (map Fin xs) ! i = accumulate fmul (map Fin xs) ! i"
    using assms by (simp add: cumprod_def nth_na_accum fillna_Fin)
  moreover have "prod_list (take (Suc i) xs) = a * prod_list (take i ys)"
    using Cons by simp
  ultimately show ?thesis by (simp add: foldl_fmul_Fin)
qed

lemma nth_cummax_Fin:
  assumes "i < length xs"
  shows "cummax (map Fin xs) ! i = Fin (Max (set (take (Suc i) xs)))"
proof (cases xs)
  case Nil then show ?thesis using assms by simp
next
  case (Cons a ys)
  have "accumulate fmax (map Fin xs) ! i = foldl fmax (Fin a) (map Fin (take i ys))"
    using assms Cons nth_accumulate[of i "map Fin xs" fmax] by (simp add: take_map)
  moreover have "cummax (map Fin xs) ! i = accumulate fmax (map Fin xs) ! i"
    using assms by (simp add: cummax_def nth_na_accum fillna_Fin)
  moreover have "take (Suc i) xs = a # take i ys"
    using Cons by simp
  ultimately show ?thesis by (simp add: foldl_fmax_Fin del: set_simps)
qed

lemma equity_first:
  assumes "sr \<noteq> []" "sr ! 0 = Fin 0"
  shows "equity_curve sr ! 0 = Fin 1"
proof -
  obtain a ys where c: "sr = a # ys" using assms(1) by (cases sr) auto
  then have "a = Fin 0" using assms(2) by simp
  then show ?thesis using c
    by (cases ys) (simp_all add: equity_curve_def cumprod_def na_accum_def fillna_def)
qed

subsection \<open>The series of a run on finite data\<close>

lemma shifted_signals_Fin:
  "shifted_signals (map Fin sg) = map Fin (map (spec_shifted sg) [0..<length sg])"
proof (rule nth_equalityI)
  show "length (shifted_signals (map Fin sg)) = length (map Fin (map (spec_shifted sg) [0..<length sg]))"
    by (simp add: length_shifted_signals)
next
  fix i assume "i < length (shifted_signals (map Fin sg))"
  then have i: "i < length sg" by (simp add: length_shifted_signals)
  show "shifted_signals (map Fin sg) ! i = map Fin (map (spec_shifted sg) [0..<length sg]) ! i"
  proof (cases i)
    case 0
    then show ?thesis using i shifted_signals_first[of "map Fin sg"]
      by (auto simp: spec_shifted_def)
  next
    case (Suc k)
    then show ?thesis using i nth_shifted_signals[of i "map Fin sg"]
      by (simp add: spec_shifted_def)
  qed
qed

lemma strat_rets_Fin:
  assumes "0 \<notin> set ps" "length sg = length ps"
  shows "strat_rets (map Fin sg) (fst (compute_returns (Backtester (map Fin ps) f))) =
         map Fin (map (spec_strategy_return ps sg) [0..<length ps])"
  using assms
  by (intro nth_equalityI)
     (simp_all add: length_strat_rets length_compute_returns Backtester_def nth_strat_rets
       shifted_signals_Fin compute_returns_Fin[unfolded Backtester_def] spec_strategy_return_def)

lemma prod_list_upt: "prod_list (map h [0..<Suc i]) = (\<Prod>j\<le>i. h j :: real)"
proof -
  have "(\<Prod>j\<le>i. h j) = prod h (set [0..<Suc i])" by (simp only: atMost_upto)
  also have "\<dots> = prod_list (map h [0..<Suc i])"
    by (rule prod.distinct_set_conv_list) simp
  finally show ?thesis by simp
qed

lemma equity_curve_Fin:
  "equity_curve (map Fin (map g [0..<n])) = map Fin (map (\<lambda>i. \<Prod>j\<le>i. 1 + g j) [0..<n])"
proof (rule nth_equalityI)
  show "length (equity_curve (map Fin (map g [0..<n]))) =
        length (map Fin (map (\<lambda>i. \<Prod>j\<le>i. 1 + g j) [0..<n]))"
    by (simp add: length_equity_curve)
next
  fix i assume "i < length (equity_curve (map Fin (map g [0..<n])))"
  then have i: "i < n" by (simp add: length_equity_curve)
  have m: "map (fadd (Fin 1)) (map Fin (map g [0..<n])) = map Fin (map (\<lambda>j. 1 + g j) [0..<n])"
    by simp
  have "take (Suc i) (map (\<lambda>j. 1 + g j) [0..<n]) = map (\<lambda>j. 1 + g j) [0..<Suc i]"
    using i by (simp add: take_map take_upt del: upt_Suc)
  then have "equity_curve (map Fin (map g [0..<n])) ! i = Fin (prod_list (map (\<lambda>j. 1 + g j) [0..<Suc i]))"
    using i nth_cumprod_Fin[of i "map (\<lambda>j. 1 + g j) [0..<n]"]
    unfolding equity_curve_def m by simp
  then show "equity_curve (map Fin (map g [0..<n])) ! i =
             map Fin (map (\<lambda>i. \<Prod>j\<le>i. 1 + g j) [0..<n]) ! i"
    using i by (simp add: prod_list_upt del: upt_Suc)
qed

subsection \<open>The running maximum and the drawdown\<close>

lemma rolling_max_ge_first:
  assumes "i < length es"
  shows "hd es \<le> Max (set (take (Suc i) es))"
proof -
  have "es \<noteq> []" using assms by auto
  then have "hd es \<in> set (take (Suc i) es)" by (cases es) auto
  then show ?thesis by simp
qed

lemma rolling_max_ge_nth:
  assumes "j \<le> i" "i < length es"
  shows "es ! j \<le> Max (set (take (Suc i) es))"
proof -
  have "es ! j = take (Suc i) es ! j" using assms by simp
  moreover have "j < length (take (Suc i) es)" using assms by simp
  ultimately have "es ! j \<in> set (take (Suc i) es)" by (metis nth_mem)
  then show ?thesis by simp
qed

lemma rolling_max_sorted:
  assumes "sorted es" "i < length es"
  shows "Max (set (take (Suc i) es)) = es ! i"
proof (rule Max_eqI)
  show "finite (set (take (Suc i) es))" by simp
next
  fix y assume "y \<in> set (take (Suc i) es)"
  then obtain j where "j < length (take (Suc i) es)" "y = take (Suc i) es ! j"
    by (metis in_set_conv_nth)
  then have "j \<le> i" "y = es ! j" using assms(2) by auto
  then show "y \<le> es ! i" using assms by (simp add: sorted_nth_mono)
next
  have "es ! i = take (Suc i) es ! i" by simp
  moreover have "i < length (take (Suc i) es)" using assms(2) by simp
  ultimately show "es ! i \<in> set (take (Suc i) es)" by (metis nth_mem)
qed

lemma spec_drawdown_nonpos:
  assumes "0 < hd es" "i < length es"
  shows "spec_drawdown es i \<le> 0"
proof -
  have "0 < Max (set (take (Suc i) es))"
    using rolling_max_ge_first[OF assms(2)] assms(1) by simp
  moreover have "es ! i \<le> Max (set (take (Suc i) es))"
    using rolling_max_ge_nth[of i i es] assms(2) by simp
  ultimately show ?thesis by (simp add: spec_drawdown_def)
qed

lemma spec_drawdown_sorted:
  assumes "0 < hd es" "i < length es" "sorted es"
  shows "spec_drawdown es i = 0"
proof -
  have m: "Max (set (take (Suc i) es)) = es ! i"
    using rolling_max_sorted[OF assms(3,2)] .
  then have "0 < es ! i" using rolling_max_ge_first[OF assms(2)] assms(1) by simp
  then show ?thesis by (simp add: spec_drawdown_def m)
qed

lemma spec_drawdown_dip:
  assumes "0 < hd es" "i < j" "j < length es" "es ! j < es ! i"
  shows "spec_drawdown es j < 0"
proof -
  have "0 < Max (set (take (Suc j) es))"
    using rolling_max_ge_first[OF assms(3)] assms(1) by simp
  moreover have "es ! i \<le> Max (set (take (Suc j) es))"
    using rolling_max_ge_nth[of i j es] assms(2,3) by simp
  ultimately show ?thesis using assms(4) by (simp add: spec_drawdown_def)
qed

lemma spec_max_drawdown_nonpos:
  assumes "es \<noteq> []" "0 < hd es"
  shows "spec_max_drawdown es \<le> 0"
proof -
  have "spec_drawdown es 0 \<in> set (map (spec_drawdown es) [0..<length es])"
    using assms(1) by (auto simp: image_iff)
  then have "spec_max_drawdown es \<le> spec_drawdown es 0"
    unfolding spec_max_drawdown_def by (intro Min_le) auto
  moreover have "spec_drawdown es 0 \<le> 0"
    using spec_drawdown_nonpos[of es 0] assms by simp
  ultimately show ?thesis by simp
qed

lemma spec_max_drawdown_sorted:
  assumes "es \<noteq> []" "0 < hd es" "sorted es"
  shows "spec_max_drawdown es = 0"
proof -
  have a: "\<forall>x\<in>set (map (spec_drawdown es) [0..<length es]). x = 0"
    using assms by (auto simp: spec_drawdown_sorted)
  have "set (map (spec_drawdown es) [0..<length es]) \<noteq> {}"
    using assms(1) by simp
  then have "Min (set (map (spec_drawdown es) [0..<length es])) \<in>
             set (map (spec_drawdown es) [0..<length es])"
    by (intro Min_in) auto
  then show ?thesis using a unfolding spec_max_drawdown_def by blast
qed

lemma spec_max_drawdown_dip:
  assumes "0 < hd es" "i < j" "j < length es" "es ! j < es ! i"
  shows "spec_max_drawdown es < 0"
proof -
  have "spec_drawdown es j \<in> set (map (spec_drawdown es) [0..<length es])"
    using assms(3) by (auto simp: image_iff)
  then have "spec_max_drawdown es \<le> spec_drawdown es j"
    unfolding spec_max_drawdown_def by (intro Min_le) auto
  then show ?thesis using spec_drawdown_dip[OF assms] by simp
qed

lemma length_cummax: "length (cummax xs) = length xs"
  by (simp add: cummax_def length_na_accum)

lemma max_drawdown_of_Fin:
  assumes "es \<noteq> []" "0 < hd es"
  shows "max_drawdown_of (map Fin es) = Fin (spec_max_drawdown es)"
proof -
  have dd: "map2 (\<lambda>e m. fsub (fdiv e m) (Fin 1)) (map Fin es) (cummax (map Fin es)) =
            map Fin (map (spec_drawdown es) [0..<length es])"
  proof (rule nth_equalityI)
    show "length (map2 (\<lambda>e m. fsub (fdiv e m) (Fin 1)) (map Fin es) (cummax (map Fin es))) =
          length (map Fin (map (spec_drawdown es) [0..<length es]))"
      by (simp add: length_cummax)
  next
    fix i
    assume "i < length (map2 (\<lambda>e m. fsub (fdiv e m) (Fin 1)) (map Fin es) (cummax (map Fin es)))"
    then have i: "i < length es" by (simp add: length_cummax)
    have "0 < Max (set (take (Suc i) es))"
      using rolling_max_ge_first[OF i] assms(2) by simp
    then show "map2 (\<lambda>e m. fsub (fdiv e m) (Fin 1)) (map Fin es) (cummax (map Fin es)) ! i =
               map Fin (map (spec_drawdown es) [0..<length es]) ! i"
      using i by (simp add: length_cummax nth_cummax_Fin fsub_def spec_drawdown_def del: upt_Suc)
  qed
  have "map (spec_drawdown es) [0..<length es] \<noteq> []" using assms(1) by simp
  then have "series_min (map Fin (map (spec_drawdown es) [0..<length es])) =
             Fin (Min (set (map (spec_drawdown es) [0..<length es])))"
    by (rule series_min_Fin)
  then show ?thesis
    unfolding max_drawdown_of_def Let_def dd by (simp add: spec_max_drawdown_def)
qed

lemma run_equity_starts_at_one:
  assumes "fst (run nanvar self) = Inr (sr, eq, sm)"
  shows "eq \<noteq> [] \<and> eq ! 0 = Fin 1 \<and> max_drawdown sm = max_drawdown_of eq"
proof -
  let ?sg = "strategy_func self (prices self)"
  let ?sr = "strat_rets ?sg (fst (compute_returns self))"
  have p: "prices self \<noteq> []" and l: "length ?sg = length (prices self)"
    using run_result_cases[OF assms] by simp_all
  have e: "eq = equity_curve ?sr" and m: "max_drawdown sm = max_drawdown_of eq"
    using run_returns[OF p l] assms by auto
  have n: "length ?sr = length (prices self)"
    using l by (simp add: length_strat_rets length_compute_returns)
  then have "?sr \<noteq> []" using p by auto
  then have "equity_curve ?sr ! 0 = Fin 1"
    using strat_rets_first[OF p l] by (rule equity_first)
  moreover have "equity_curve ?sr \<noteq> []"
    using n p by (metis length_equity_curve length_0_conv)
  ultimately show ?thesis using e m by simp
qed

lemma run_Fin:
  assumes "ps \<noteq> []" and "0 \<notin> set ps" and "length sg = length ps"
    and "f (map Fin ps) = map Fin sg"
  shows "fst (run nanvar (Backtester (map Fin ps) f)) =
       Inr (map Fin (map (spec_strategy_return ps sg) [0..<length ps]),
            map Fin (map (spec_equity ps sg) [0..<length ps]),
            \<lparr>total_return = Fin (spec_equity ps sg (length ps - 1) - 1),
             sharpe = sharpe_of nanvar (map Fin (map (spec_strategy_return ps sg) [0..<length ps])) None,
             max_drawdown =
               max_drawdown_of (map Fin (map (spec_equity ps sg) [0..<length ps]))\<rparr>)"
proof -
  let ?b = "Backtester (map Fin ps) f"
  let ?n = "length ps"
  have p: "prices ?b \<noteq> []" using assms(1) by (simp add: Backtester_def)
  have s: "strategy_func ?b (prices ?b) = map Fin sg" using assms(4) by (simp add: Backtester_def)
  have l: "length (strategy_func ?b (prices ?b)) = length (prices ?b)"
    using s assms(3) by (simp add: Backtester_def)
  have sr: "strat_rets (strategy_func ?b (prices ?b)) (fst (compute_returns ?b)) =
            map Fin (map (spec_strategy_return ps sg) [0..<?n])"
    unfolding s using assms(2,3) by (rule strat_rets_Fin)
  have eq: "equity_curve (map Fin (map (spec_strategy_return ps sg) [0..<?n])) =
            map Fin (map (spec_equity ps sg) [0..<?n])"
    unfolding equity_curve_Fin by (simp add: spec_equity_def)
  have "[0..<?n] \<noteq> []" using assms(1) by simp
  then have "last (map Fin (map (spec_equity ps sg) [0..<?n])) = Fin (spec_equity ps sg (?n - 1))"
    using assms(1) by (simp add: last_map last_upt del: upt_eq_Nil_conv)
  then show ?thesis using run_returns[OF p l] unfolding sr eq by (simp add: fsub_def)
qed

subsection \<open>A worked example\<close>

lemma example_run:
  "fst (run nanvar (Backtester [Fin 100, Fin 110, Fin 121, Fin (1089 / 10)] long_strategy)) =
     Inr ([Fin 0, Fin (1 / 10), Fin (1 / 10), Fin (- (1 / 10))],
          map Fin [1, 11 / 10, 121 / 100, 1089 / 1000],
          \<lparr>total_return = Fin (89 / 1000),
           sharpe = sharpe_of nanvar [Fin 0, Fin (1 / 10), Fin (1 / 10), Fin (- (1 / 10))] None,
           max_drawdown = max_drawdown_of (map Fin [1, 11 / 10, 121 / 100, 1089 / 1000])\<rparr>)"
proof -
  have sr: "map (spec_strategy_return [100, 110, 121, 1089 / 10] [1, 1, 1, 1]) [0..<4] =
        [0, 1 / 10, 1 / 10, - (1 / 10)]"
    by (simp add: spec_strategy_return_def spec_shifted_def spec_return_def upt_rec)
  have e: "map (spec_equity [100, 110, 121, 1089 / 10] [1, 1, 1, 1]) [0..<4] =
        [1, 11 / 10, 121 / 100, 1089 / 1000]"
    by (simp add: spec_equity_def spec_strategy_return_def spec_shifted_def spec_return_def
        upt_rec atMost_Suc numeral_eq_Suc)
  have e3: "spec_equity [100, 110, 121, 1089 / 10] [1, 1, 1, 1] (4 - 1) - 1 = 89 / 1000"
    by (simp add: spec_equity_def spec_strategy_return_def spec_shifted_def spec_return_def
        atMost_Suc numeral_eq_Suc)
  have len: "length [100, 110, 121, 1089 / 10 :: real] = 4" by simp
  have h1: "[100, 110, 121, 1089 / 10 :: real] \<noteq> []" by simp
  have h2: "0 \<notin> set [100, 110, 121, 1089 / 10 :: real]" by simp
  have h3: "length [1, 1, 1, 1 :: real] = length [100, 110, 121, 1089 / 10 :: real]" by simp
  have h4: "long_strategy (map Fin [100, 110, 121, 1089 / 10]) = map Fin [1, 1, 1, 1]"
    by (simp add: long_strategy_def numeral_eq_Suc)
  show ?thesis
    using run_Fin[of "[100, 110, 121, 1089 / 10]" "[1, 1, 1, 1]" long_strategy, OF h1 h2 h3 h4]
    unfolding len sr e e3 by simp
qed

lemma example_drawdown: "spec_max_drawdown [1, 11 / 10, 121 / 100, 1089 / 1000] = - (1 / 10)"
  by (simp add: spec_max_drawdown_def spec_drawdown_def upt_rec)

subsection \<open>The standard deviation and the Sharpe ratio\<close>

lemma foldl_fadd_Fin: "foldl fadd (Fin a) (map Fin xs) = Fin (a + sum_list xs)"
  by (induction xs arbitrary: a) (auto simp: add.assoc)

lemma fsum_Fin: "fsum (map Fin xs) = Fin (sum_list xs)"
  by (simp add: fsum_def foldl_fadd_Fin)

lemma series_std_short: "length (dropna xs) \<le> 1 \<Longrightarrow> series_std nanvar xs = NaN"
  by (simp add: series_std_def series_var_def)

lemma series_std_single: "series_std nanvar (excess_returns [r] x) = NaN"
  by (rule series_std_short) (simp add: dropna_def excess_returns_def)

lemma sharpe_of_single: "sharpe_of nanvar [r] rf = NaN"
  by (simp add: sharpe_of_def feq_def Let_def fdiv_NaN_right series_std_single)

text \<open>
  Constant returns: for two or more equal returns whose computed variance is above 0,
  the test for a zero standard deviation fails and the quotient is returned.
\<close>

lemma sharpe_of_constant_returns:
  assumes "2 \<le> n" and "nanvar (replicate n (Fin c)) = Fin v" and "0 < v"
  shows "sharpe_of nanvar (replicate n (Fin c)) None = Fin (sqrt 252 * c / sqrt v)"
proof -
  have e: "excess_returns (replicate n (Fin c)) (Fin 0) = replicate n (Fin c)"
    by (simp add: excess_returns_def fsub_def map_replicate)
  have d: "dropna (replicate n (Fin c)) = replicate n (Fin c)"
    using dropna_Fin[of "replicate n c"] by (simp add: map_replicate)
  have n: "real n \<noteq> 0" "replicate n (Fin c) \<noteq> []" using assms(1) by auto
  have s: "series_std nanvar (replicate n (Fin c)) = Fin (sqrt v)"
    using assms by (simp add: series_std_def series_var_def d)
  have "fsum (replicate n (Fin c)) = Fin (real n * c)"
    using fsum_Fin[of "replicate n c"] by (simp add: map_replicate sum_list_replicate)
  then have m: "series_mean (replicate n (Fin c)) = Fin c"
    using n by (simp add: series_mean_def d)
  show ?thesis using assms(3) by (simp add: sharpe_of_def e s m feq_def)
qed

lemma exact_var_zeros:
  assumes "2 \<le> n"
  shows "exact_var (replicate n (Fin 0)) = Fin 0"
proof -
  have z: "fsum (replicate n (Fin 0)) = Fin 0"
    using fsum_Fin[of "replicate n 0"] by (simp add: map_replicate sum_list_replicate)
  have n: "real n \<noteq> 0" "real (n - 1) \<noteq> 0" using assms by auto
  have "map (\<lambda>v. fmul (fsub (Fin 0) v) (fsub (Fin 0) v)) (replicate n (Fin 0)) =
        replicate n (Fin 0)"
    by (simp add: map_replicate fsub_def)
  then show ?thesis using n z by (simp add: exact_var_def Let_def)
qed

subsection \<open>Runs under the all-zero signal\<close>

lemma spec_strategy_return_flat:
  "i < n \<Longrightarrow> spec_strategy_return ps (replicate n 0) i = 0"
  by (simp add: spec_strategy_return_def spec_shifted_def)

lemma spec_equity_flat:
  "i < n \<Longrightarrow> spec_equity ps (replicate n 0) i = 1"
  by (simp add: spec_equity_def spec_strategy_return_flat)

lemma strategy_returns_flat:
  "map (spec_strategy_return ps (replicate n 0)) [0..<n] = replicate n 0"
  by (rule nth_equalityI) (simp_all add: spec_strategy_return_flat)

lemma equity_flat:
  "map (spec_equity ps (replicate n 0)) [0..<n] = replicate n 1"
  by (rule nth_equalityI) (simp_all add: spec_equity_flat)

lemma max_drawdown_of_flat:
  assumes "0 < n"
  shows "max_drawdown_of (replicate n (Fin 1)) = Fin 0"
proof -
  have ne: "replicate n (1::real) \<noteq> []" and h: "0 < hd (replicate n (1::real))"
    using assms by (auto simp: hd_replicate)
  have "sorted (replicate n (1::real))" by (simp add: sorted_replicate)
  then have "spec_max_drawdown (replicate n 1) = 0"
    using ne h by (intro spec_max_drawdown_sorted)
  then show ?thesis using max_drawdown_of_Fin[OF ne h] by (simp add: map_replicate)
qed

lemma sharpe_of_flat:
  assumes "2 \<le> n" and "nanvar (replicate n (Fin 0)) = Fin 0"
  shows "sharpe_of nanvar (replicate n (Fin 0)) None = Fin 0"
proof -
  have e: "excess_returns (replicate n (Fin 0)) (Fin 0) = replicate n (Fin 0)"
    by (simp add: excess_returns_def fsub_def map_replicate)
  have d: "dropna (replicate n (Fin 0)) = replicate n (Fin 0)"
    using dropna_Fin[of "replicate n 0"] by (simp add: map_replicate)
  have "series_std nanvar (replicate n (Fin 0)) = Fin 0"
    using assms by (simp add: series_std_def series_var_def d)
  then show ?thesis by (simp add: sharpe_of_def e feq_def)
qed

lemma run_flat:
  assumes "ps \<noteq> []" and "0 \<notin> set ps"
    and "f (map Fin ps) = replicate (length ps) (Fin 0)"
  shows "fst (run nanvar (Backtester (map Fin ps) f)) =
       Inr (replicate (length ps) (Fin 0), replicate (length ps) (Fin 1),
            \<lparr>total_return = Fin 0,
             sharpe = sharpe_of nanvar (replicate (length ps) (Fin 0)) None,
             max_drawdown = Fin 0\<rparr>)"
proof -
  have n: "0 < length ps" "length ps - Suc 0 < length ps" using assms(1) by auto
  have f: "f (map Fin ps) = map Fin (replicate (length ps) 0)"
    using assms(3) by (simp add: map_replicate)
  have l: "length (replicate (length ps) (0::real)) = length ps" by simp
  show ?thesis
    using run_Fin[of ps "replicate (length ps) 0" f, OF assms(1,2) l f]
    unfolding strategy_returns_flat equity_flat
    by (simp add: map_replicate max_drawdown_of_flat[OF n(1)] spec_equity_flat[OF n(2)])
qed

section \<open>The claims\<close>

subsection \<open>Invalid input\<close>

text \<open>
  C1 (as the code has it): if the price series is empty, or the strategy returns a
  list whose length differs from the number of prices, \<open>run\<close> ends with an exception and
  returns no result. The exception is \<open>ValueError\<close> when the lengths differ (raised
  where the signal Series is built) and \<open>IndexError\<close> otherwise (raised where the last
  equity value is read); it is never \<open>InvalidInputError\<close>.
\<close>

theorem run_fails_on_invalid_input:
  "prices self = [] \<or> length (strategy_func self (prices self)) \<noteq> length (prices self) \<Longrightarrow>
   fst (run nanvar self) =
     Inl (if length (strategy_func self (prices self)) \<noteq> length (prices self)
          then ValueError else IndexError)"
proof (cases "length (strategy_func self (prices self)) = length (prices self)")
  case False
  then show ?thesis by (simp add: run_length_mismatch)
next
  case True
  assume "prices self = [] \<or> length (strategy_func self (prices self)) \<noteq> length (prices self)"
  then have e: "prices self = []" using True by simp
  then have "strategy_func self [] = []" using True by simp
  then show ?thesis using True run_no_prices[OF e] by simp
qed

theorem run_fails_on_invalid_input_witness:
  "fst (run exact_var (Backtester [] flat_strategy)) = Inl IndexError \<and>
   fst (run exact_var (Backtester [Fin 100, Fin 110] overlong_strategy)) = Inl ValueError"
  using run_fails_on_invalid_input[of "Backtester [] flat_strategy"]
    run_fails_on_invalid_input[of "Backtester [Fin 100, Fin 110] overlong_strategy"]
  by (simp add: Backtester_def flat_strategy_def overlong_strategy_def)

text \<open>
  The claim as the specification states it fails: neither an empty price series nor
  a signal list of the wrong length ends in \<open>InvalidInputError\<close>.
\<close>

theorem run_invalid_input_counterexample:
  "fst (run exact_var (Backtester [] flat_strategy)) \<noteq> Inl InvalidInputError \<and>
   fst (run exact_var (Backtester [Fin 100, Fin 110] overlong_strategy)) \<noteq> Inl InvalidInputError"
proof -
  have "fst (run exact_var (Backtester [] flat_strategy)) = Inl IndexError"
    by (rule run_no_prices) (simp_all add: Backtester_def flat_strategy_def)
  moreover have "fst (run exact_var (Backtester [Fin 100, Fin 110] overlong_strategy)) = Inl ValueError"
    by (rule run_length_mismatch) (simp add: Backtester_def overlong_strategy_def)
  ultimately show ?thesis by simp
qed

subsection \<open>Returns\<close>

text \<open>
  C5: \<open>compute_returns\<close> gives a series as long as the price series; its first element
  is 0; for finite non-zero prices element \<open>i \<ge> 1\<close> is
  \<open>(price[i] - price[i-1]) / price[i-1]\<close>; and on the prices 100, 100, 100 it gives
  0, 0, 0, with no NaN.
\<close>

theorem compute_returns_spec:
  "length (fst (compute_returns self)) = length (prices self) \<and>
   (prices self \<noteq> [] \<longrightarrow> fst (compute_returns self) ! 0 = Fin 0) \<and>
   (0 \<notin> set ps \<longrightarrow>
      fst (compute_returns (Backtester (map Fin ps) f)) =
        map Fin (map (spec_return ps) [0..<length ps])) \<and>
   fst (compute_returns (Backtester [Fin 100, Fin 100, Fin 100] f)) = [Fin 0, Fin 0, Fin 0]"
proof -
  have "fst (compute_returns (Backtester (map Fin [100, 100, 100]) f)) =
        map Fin (map (spec_return [100, 100, 100]) [0..<length [100, 100, 100 :: real]])"
    by (rule compute_returns_Fin) simp
  then have "fst (compute_returns (Backtester [Fin 100, Fin 100, Fin 100] f)) =
        [Fin 0, Fin 0, Fin 0]"
    by (simp add: spec_return_def upt_rec)
  then show ?thesis
    by (simp add: length_compute_returns compute_returns_first compute_returns_Fin)
qed

theorem compute_returns_spec_witness:
  "prices (Backtester [Fin 100, Fin 110, Fin 121] flat_strategy) \<noteq> [] \<and>
   0 \<notin> set [100, 110, 121 :: real] \<and>
   fst (compute_returns (Backtester [Fin 100, Fin 110, Fin 121] flat_strategy)) =
     [Fin 0, Fin (1 / 10), Fin (1 / 10)]"
  using compute_returns_spec[of "Backtester [Fin 100, Fin 110, Fin 121] flat_strategy"
      "[100, 110, 121]" flat_strategy]
  by (simp add: Backtester_def spec_return_def upt_rec)

subsection \<open>Frame\<close>

text \<open>
  C9: \<open>compute_returns\<close> and \<open>run\<close> leave the instance exactly as it was: the prices
  and the strategy function are those given at construction, and the instance holds
  nothing else afterwards.
\<close>

theorem methods_leave_instance_unchanged:
  "snd (compute_returns self) = self \<and> snd (run nanvar self) = self \<and>
   prices (snd (compute_returns (Backtester ps f))) = ps \<and>
   strategy_func (snd (compute_returns (Backtester ps f))) = f \<and>
   prices (snd (run nanvar (Backtester ps f))) = ps \<and>
   strategy_func (snd (run nanvar (Backtester ps f))) = f"
  by (simp add: snd_run snd_compute_returns Backtester_def)

subsection \<open>The one-bar lag\<close>

text \<open>
  C2: for a non-empty price series and a signal list of the same length, \<open>run\<close> returns,
  and the strategy returns it reports are the lagged signals times the returns, where
  the lagged signal is 0 at index 0 and \<open>signal[i-1]\<close> at every index \<open>i \<ge> 1\<close> (for a
  signal that is a number: \<open>fillna\<close> turns a missing one into 0 as well). So the
  strategy return at index 0 is 0, whatever the signals.
\<close>

theorem run_applies_one_bar_lag:
  assumes "prices self \<noteq> []"
    and "length (strategy_func self (prices self)) = length (prices self)"
  shows "\<exists>sr eq sm. fst (run nanvar self) = Inr (sr, eq, sm) \<and>
     sr = map2 fmul (shifted_signals (strategy_func self (prices self)))
            (fst (compute_returns self)) \<and>
     length (shifted_signals (strategy_func self (prices self))) = length (prices self) \<and>
     shifted_signals (strategy_func self (prices self)) ! 0 = Fin 0 \<and>
     (\<forall>i. 1 \<le> i \<and> i < length (prices self) \<and> strategy_func self (prices self) ! (i - 1) \<noteq> NaN
        \<longrightarrow> shifted_signals (strategy_func self (prices self)) ! i =
            strategy_func self (prices self) ! (i - 1)) \<and>
     sr ! 0 = Fin 0"
proof -
  let ?sg = "strategy_func self (prices self)"
  let ?sr = "strat_rets ?sg (fst (compute_returns self))"
  have ne: "?sg \<noteq> []" using assms by auto
  have "\<exists>sm. fst (run nanvar self) = Inr (?sr, equity_curve ?sr, sm)"
    using run_returns[OF assms] by simp
  moreover have "?sr = map2 fmul (shifted_signals ?sg) (fst (compute_returns self))"
    by (simp add: strat_rets_def)
  moreover have "length (shifted_signals ?sg) = length (prices self)"
    using assms(2) by (simp add: length_shifted_signals)
  moreover have "shifted_signals ?sg ! 0 = Fin 0"
    using ne by (rule shifted_signals_first)
  moreover have "\<forall>i. 1 \<le> i \<and> i < length (prices self) \<and> ?sg ! (i - 1) \<noteq> NaN
        \<longrightarrow> shifted_signals ?sg ! i = ?sg ! (i - 1)"
    using assms(2) by (simp add: nth_shifted_signals)
  moreover have "?sr ! 0 = Fin 0"
    by (rule strat_rets_first[OF assms])
  ultimately show ?thesis by blast
qed

theorem run_applies_one_bar_lag_witness:
  "shifted_signals (long_strategy [Fin 100, Fin 110, Fin 121]) = [Fin 0, Fin 1, Fin 1] \<and>
   (\<exists>sr eq sm. fst (run exact_var (Backtester [Fin 100, Fin 110, Fin 121] long_strategy)) = Inr (sr, eq, sm)
      \<and> sr = [Fin 0, Fin (1 / 10), Fin (1 / 10)])"
proof -
  let ?b = "Backtester [Fin 100, Fin 110, Fin 121] long_strategy"
  have p: "prices ?b \<noteq> []" by (simp add: Backtester_def)
  have l: "length (strategy_func ?b (prices ?b)) = length (prices ?b)"
    by (simp add: Backtester_def long_strategy_def)
  have s: "strategy_func ?b (prices ?b) = [Fin 1, Fin 1, Fin 1]"
    by (simp add: Backtester_def long_strategy_def numeral_3_eq_3)
  have r: "fst (compute_returns ?b) = [Fin 0, Fin (1 / 10), Fin (1 / 10)]"
    using compute_returns_Fin[of "[100, 110, 121]" long_strategy]
    by (simp add: spec_return_def upt_rec)
  obtain sr eq sm where a: "fst (run exact_var ?b) = Inr (sr, eq, sm)"
    and b: "sr = map2 fmul (shifted_signals (strategy_func ?b (prices ?b)))
            (fst (compute_returns ?b))"
    and c: "length (shifted_signals (strategy_func ?b (prices ?b))) = length (prices ?b)"
    and d: "shifted_signals (strategy_func ?b (prices ?b)) ! 0 = Fin 0"
    and e: "\<forall>i. 1 \<le> i \<and> i < length (prices ?b) \<and> strategy_func ?b (prices ?b) ! (i - 1) \<noteq> NaN
        \<longrightarrow> shifted_signals (strategy_func ?b (prices ?b)) ! i =
            strategy_func ?b (prices ?b) ! (i - 1)"
    using run_applies_one_bar_lag[OF p l] by blast
  have len: "length (shifted_signals [Fin 1, Fin 1, Fin 1]) = 3"
    using c s by (simp add: Backtester_def)
  have e1: "shifted_signals [Fin 1, Fin 1, Fin 1] ! 1 = Fin 1"
    using e[rule_format, of 1] s by (simp add: Backtester_def)
  have e2: "shifted_signals [Fin 1, Fin 1, Fin 1] ! Suc (Suc 0) = Fin 1"
    using e[rule_format, of "Suc (Suc 0)"] s by (simp add: Backtester_def)
  have e0: "shifted_signals [Fin 1, Fin 1, Fin 1] ! 0 = Fin 0"
    using d s by simp
  have sh: "shifted_signals [Fin 1, Fin 1, Fin 1] = [Fin 0, Fin 1, Fin 1]"
    by (rule nth_equalityI) (use len e0 e1 e2 in \<open>auto simp: less_Suc_eq numeral_3_eq_3\<close>)
  have "sr = [Fin 0, Fin (1 / 10), Fin (1 / 10)]"
    using b s r sh by simp
  moreover have "long_strategy [Fin 100, Fin 110, Fin 121] = [Fin 1, Fin 1, Fin 1]"
    by (simp add: long_strategy_def numeral_3_eq_3)
  ultimately show ?thesis using a sh by simp
qed

subsection \<open>Signals are not validated\<close>

text \<open>
  C10: for a non-empty price series and any signal list of the same length, whatever
  its values, \<open>run\<close> raises no error. The strategy return is 0 at index 0 and
  \<open>signal[i-1] * return[i]\<close> at every index \<open>i \<ge> 1\<close> (for a signal that is a number), and
  the equity curve and the three statistics are computed from these strategy returns
  as they are.
\<close>

theorem run_never_validates_signals:
  assumes "prices self \<noteq> []"
    and "length (strategy_func self (prices self)) = length (prices self)"
  shows "\<exists>sr eq sm. fst (run nanvar self) = Inr (sr, eq, sm) \<and>
     length sr = length (prices self) \<and>
     sr ! 0 = Fin 0 \<and>
     (\<forall>i. 1 \<le> i \<and> i < length (prices self) \<and> strategy_func self (prices self) ! (i - 1) \<noteq> NaN
        \<longrightarrow> sr ! i = fmul (strategy_func self (prices self) ! (i - 1))
                          (fst (compute_returns self) ! i)) \<and>
     eq = equity_curve sr \<and>
     total_return sm = fsub (last eq) (Fin 1) \<and>
     sharpe sm = sharpe_of nanvar sr None \<and>
     max_drawdown sm = max_drawdown_of eq"
proof -
  let ?sg = "strategy_func self (prices self)"
  let ?rets = "fst (compute_returns self)"
  let ?sr = "strat_rets ?sg ?rets"
  have "length ?sr = length (prices self)"
    using assms(2) by (simp add: length_strat_rets length_compute_returns)
  moreover have "?sr ! 0 = Fin 0"
    by (rule strat_rets_first[OF assms])
  moreover have "\<forall>i. 1 \<le> i \<and> i < length (prices self) \<and> ?sg ! (i - 1) \<noteq> NaN
        \<longrightarrow> ?sr ! i = fmul (?sg ! (i - 1)) (?rets ! i)"
    using assms(2) by (simp add: nth_strat_rets length_compute_returns nth_shifted_signals)
  ultimately show ?thesis using run_returns[OF assms] by simp
qed

theorem run_never_validates_signals_witness:
  "\<exists>sr eq sm. fst (run exact_var (Backtester [Fin 100, Fin 110] double_strategy)) = Inr (sr, eq, sm) \<and>
     sr = [Fin 0, Fin (1 / 5)] \<and> eq = [Fin 1, Fin (6 / 5)] \<and> total_return sm = Fin (1 / 5)"
proof -
  let ?b = "Backtester [Fin 100, Fin 110] double_strategy"
  have p: "prices ?b \<noteq> []" by (simp add: Backtester_def)
  have l: "length (strategy_func ?b (prices ?b)) = length (prices ?b)"
    by (simp add: Backtester_def double_strategy_def)
  have s: "strategy_func ?b (prices ?b) = [Fin 2, Fin 2]"
    by (simp add: Backtester_def double_strategy_def numeral_2_eq_2)
  have r: "fst (compute_returns ?b) = [Fin 0, Fin (1 / 10)]"
    using compute_returns_Fin[of "[100, 110]" double_strategy]
    by (simp add: spec_return_def upt_rec)
  obtain sr eq sm where a: "fst (run exact_var ?b) = Inr (sr, eq, sm)"
    and n: "length sr = length (prices ?b)"
    and z: "sr ! 0 = Fin 0"
    and e: "\<forall>i. 1 \<le> i \<and> i < length (prices ?b) \<and> strategy_func ?b (prices ?b) ! (i - 1) \<noteq> NaN
        \<longrightarrow> sr ! i = fmul (strategy_func ?b (prices ?b) ! (i - 1))
                          (fst (compute_returns ?b) ! i)"
    and q: "eq = equity_curve sr"
    and t: "total_return sm = fsub (last eq) (Fin 1)"
    using run_never_validates_signals[OF p l] by blast
  have "sr ! 1 = Fin (1 / 5)"
    using e[rule_format, of 1] s r by (simp add: Backtester_def)
  then have sr: "sr = [Fin 0, Fin (1 / 5)]"
    using n z by (intro nth_equalityI) (auto simp: Backtester_def less_Suc_eq)
  have eq: "eq = [Fin 1, Fin (6 / 5)]"
    using q sr by (simp add: equity_curve_def cumprod_def na_accum_def fillna_def)
  have "total_return sm = Fin (1 / 5)"
    using t eq by (simp add: fsub_def)
  then show ?thesis using a sr eq by simp
qed

subsection \<open>Compounding\<close>

text \<open>
  C4: for a non-empty series of finite non-zero prices and a signal list of finite
  numbers of the same length, \<open>run\<close> returns the strategy returns
  \<open>shiftedSignal[i] * return[i]\<close>, the equity curve whose element \<open>i\<close> is the product of
  \<open>1 + StrategyReturn[j]\<close> over \<open>j = 0..i\<close>, and a total return equal to the last equity
  value minus 1.
\<close>

theorem run_equity_is_compounded_product:
  assumes "ps \<noteq> []" and "0 \<notin> set ps" and "length sg = length ps"
    and "f (map Fin ps) = map Fin sg"
  shows "\<exists>sm. fst (run nanvar (Backtester (map Fin ps) f)) =
       Inr (map Fin (map (spec_strategy_return ps sg) [0..<length ps]),
            map Fin (map (spec_equity ps sg) [0..<length ps]), sm) \<and>
     total_return sm = Fin (spec_equity ps sg (length ps - 1) - 1)"
  using run_Fin[of ps sg f, OF assms] by simp

text \<open>The example of the specification: three moves of 10 percent, always long.\<close>

theorem run_equity_is_compounded_product_witness:
  "\<exists>sm. fst (run exact_var (Backtester [Fin 100, Fin 110, Fin 121, Fin (1089 / 10)] long_strategy)) =
       Inr ([Fin 0, Fin (1 / 10), Fin (1 / 10), Fin (- (1 / 10))],
            [Fin 1, Fin (11 / 10), Fin (121 / 100), Fin (1089 / 1000)], sm) \<and>
     total_return sm = Fin (89 / 1000)"
proof -
  have sr: "map (spec_strategy_return [100, 110, 121, 1089 / 10] [1, 1, 1, 1]) [0..<4] =
        [0, 1 / 10, 1 / 10, - (1 / 10)]"
    by (simp add: spec_strategy_return_def spec_shifted_def spec_return_def upt_rec)
  have e: "map (spec_equity [100, 110, 121, 1089 / 10] [1, 1, 1, 1]) [0..<4] =
        [1, 11 / 10, 121 / 100, 1089 / 1000]"
    by (simp add: spec_equity_def spec_strategy_return_def spec_shifted_def spec_return_def
        upt_rec atMost_Suc numeral_eq_Suc)
  have e3: "spec_equity [100, 110, 121, 1089 / 10] [1, 1, 1, 1] 3 = 1089 / 1000"
    by (simp add: spec_equity_def spec_strategy_return_def spec_shifted_def spec_return_def
        atMost_Suc numeral_eq_Suc)
  have len: "length [100, 110, 121, 1089 / 10 :: real] = 4" by simp
  have h1: "[100, 110, 121, 1089 / 10 :: real] \<noteq> []" by simp
  have h2: "0 \<notin> set [100, 110, 121, 1089 / 10 :: real]" by simp
  have h3: "length [1, 1, 1, 1 :: real] = length [100, 110, 121, 1089 / 10 :: real]" by simp
  have h4: "long_strategy (map Fin [100, 110, 121, 1089 / 10]) = map Fin [1, 1, 1, 1]"
    by (simp add: long_strategy_def numeral_eq_Suc)
  obtain sm where
    r: "fst (run exact_var (Backtester (map Fin [100, 110, 121, 1089 / 10]) long_strategy)) =
       Inr (map Fin (map (spec_strategy_return [100, 110, 121, 1089 / 10] [1, 1, 1, 1])
              [0..<length [100, 110, 121, 1089 / 10 :: real]]),
            map Fin (map (spec_equity [100, 110, 121, 1089 / 10] [1, 1, 1, 1])
              [0..<length [100, 110, 121, 1089 / 10 :: real]]), sm)"
    and t: "total_return sm = Fin (spec_equity [100, 110, 121, 1089 / 10] [1, 1, 1, 1]
              (length [100, 110, 121, 1089 / 10 :: real] - 1) - 1)"
    using run_equity_is_compounded_product[of "[100, 110, 121, 1089 / 10]" "[1, 1, 1, 1]"
        long_strategy, OF h1 h2 h3 h4] by blast
  have "total_return sm = Fin (89 / 1000)"
    using t e3 unfolding len by simp
  moreover have "fst (run exact_var (Backtester [Fin 100, Fin 110, Fin 121, Fin (1089 / 10)] long_strategy)) =
       Inr ([Fin 0, Fin (1 / 10), Fin (1 / 10), Fin (- (1 / 10))],
            [Fin 1, Fin (11 / 10), Fin (121 / 100), Fin (1089 / 1000)], sm)"
    using r unfolding len sr e by simp
  ultimately show ?thesis by blast
qed

subsection \<open>Maximum drawdown\<close>

text \<open>
  C6: for every equity curve of finite values that \<open>run\<close> returns, the reported maximum
  drawdown is the minimum over all \<open>i\<close> of \<open>equity[i] / max(equity[0..i]) - 1\<close>. It is at
  most 0; it is 0 when the curve never decreases; and it is below 0 when some value lies
  strictly below an earlier one.
\<close>

theorem run_max_drawdown:
  assumes "fst (run nanvar self) = Inr (sr, map Fin es, sm)"
  shows "max_drawdown sm = Fin (spec_max_drawdown es) \<and>
     spec_max_drawdown es \<le> 0 \<and>
     (sorted es \<longrightarrow> spec_max_drawdown es = 0) \<and>
     ((\<exists>i j. i < j \<and> j < length es \<and> es ! j < es ! i) \<longrightarrow> spec_max_drawdown es < 0)"
proof -
  have ne: "es \<noteq> []" and one: "map Fin es ! 0 = Fin 1"
    and m: "max_drawdown sm = max_drawdown_of (map Fin es)"
    using run_equity_starts_at_one[OF assms] by simp_all
  have "es ! 0 = 1" using ne one by (cases es) auto
  then have h: "0 < hd es" using ne by (simp add: hd_conv_nth)
  show ?thesis
    using m max_drawdown_of_Fin[OF ne h] spec_max_drawdown_nonpos[OF ne h]
      spec_max_drawdown_sorted[OF ne h] spec_max_drawdown_dip[OF h]
    by auto
qed

theorem run_max_drawdown_witness:
  "\<exists>sr sm. fst (run exact_var (Backtester [Fin 100, Fin 110, Fin 121, Fin (1089 / 10)] long_strategy)) =
       Inr (sr, map Fin [1, 11 / 10, 121 / 100, 1089 / 1000], sm) \<and>
     max_drawdown sm = Fin (- (1 / 10)) \<and>
     spec_max_drawdown [1, 11 / 10, 121 / 100, 1089 / 1000] < 0"
proof -
  have d: "\<exists>i j. i < j \<and> j < length [1, 11 / 10, 121 / 100, 1089 / 1000 :: real] \<and>
      [1, 11 / 10, 121 / 100, 1089 / 1000 :: real] ! j < [1, 11 / 10, 121 / 100, 1089 / 1000] ! i"
    by (intro exI[of _ "Suc (Suc 0)"] exI[of _ "Suc (Suc (Suc 0))"]) simp
  show ?thesis
    using run_max_drawdown[OF example_run] d example_run example_drawdown by simp
qed

subsection \<open>The Sharpe ratio\<close>

text \<open>
  C3 says that excess returns whose standard deviation is exactly 0 give a Sharpe ratio
  of 0.0, never NaN. A series of one return is constant, yet for it the code returns NaN,
  whatever the return and the risk-free rate: the sample standard deviation of one value
  is NaN, the test \<^verbatim>\<open>excess.std() == 0\<close> is false for NaN, and the quotient by NaN is
  taken. This holds for every variance function \<open>nanvar\<close>, since fewer than two values
  never reach it. (For two or more equal returns the test depends on the computed
  variance being exactly 0: see \<open>sharpe_of_constant_returns\<close>.)
\<close>

theorem sharpe_of_single_return:
  "series_std nanvar (excess_returns [Fin r] risk_free) = NaN \<and>
   sharpe_of nanvar [Fin r] (Some risk_free) = NaN \<and>
   sharpe_of nanvar [Fin r] None = NaN"
  by (simp add: series_std_single sharpe_of_single)

subsection \<open>The all-zero signal\<close>

text \<open>
  C7 claims a Sharpe ratio of 0 for every non-empty price series under an all-zero
  signal list. On a single price the code returns NaN instead: the sample standard
  deviation of one strategy return is NaN, which the test \<^verbatim>\<open>excess.std() == 0\<close> does not
  catch, so the quotient is taken. The other four results are as the claim says.
\<close>

theorem run_flat_single_price:
  "fst (run nanvar (Backtester [Fin 100] flat_strategy)) =
     Inr ([Fin 0], [Fin 1], \<lparr>total_return = Fin 0, sharpe = NaN, max_drawdown = Fin 0\<rparr>)"
proof -
  have "fst (run nanvar (Backtester (map Fin [100]) flat_strategy)) =
       Inr (replicate (length [100 :: real]) (Fin 0), replicate (length [100 :: real]) (Fin 1),
            \<lparr>total_return = Fin 0,
             sharpe = sharpe_of nanvar (replicate (length [100 :: real]) (Fin 0)) None,
             max_drawdown = Fin 0\<rparr>)"
    by (rule run_flat) (simp_all add: flat_strategy_def)
  then show ?thesis by (simp add: sharpe_of_single)
qed

text \<open>
  What holds of the claim: with an all-zero signal list and two or more finite non-zero
  prices, the strategy returns are all 0, the equity curve is all 1, and the total
  return, the Sharpe ratio and the maximum drawdown are 0, for every variance function
  that gives 0 on zeros (as the float64 computation does: no step rounds there).
\<close>

lemma run_flat_signals:
  assumes "2 \<le> length ps" and "0 \<notin> set ps"
    and "f (map Fin ps) = replicate (length ps) (Fin 0)"
    and "nanvar (replicate (length ps) (Fin 0)) = Fin 0"
  shows "fst (run nanvar (Backtester (map Fin ps) f)) =
       Inr (replicate (length ps) (Fin 0), replicate (length ps) (Fin 1),
            \<lparr>total_return = Fin 0, sharpe = Fin 0, max_drawdown = Fin 0\<rparr>)"
proof -
  have "ps \<noteq> []" using assms(1) by auto
  then show ?thesis
    using run_flat[of ps f nanvar, OF _ assms(2,3)] sharpe_of_flat[of "length ps" nanvar, OF assms(1,4)] by simp
qed

lemma run_flat_signals_witness:
  "fst (run exact_var (Backtester [Fin 100, Fin 110, Fin 121] flat_strategy)) =
       Inr ([Fin 0, Fin 0, Fin 0], [Fin 1, Fin 1, Fin 1],
            \<lparr>total_return = Fin 0, sharpe = Fin 0, max_drawdown = Fin 0\<rparr>)"
proof -
  have "exact_var (replicate (length [100, 110, 121 :: real]) (Fin 0)) = Fin 0"
    by (rule exact_var_zeros) simp
  then show ?thesis
    using run_flat_signals[of "[100, 110, 121]" flat_strategy exact_var]
    by (simp add: flat_strategy_def numeral_eq_Suc)
qed

end
